theory Spec2Isabelle
  imports Main "HOL-Library.Code_Target_Numeral"
begin

section \<open>The Mailchimp API client (client.go)\<close>

text \<open>
  The client is a thin layer over four collaborators of the Go standard library:
  the URL parser (net/url), the JSON codec (encoding/json), request construction and
  the transport (net/http). The functions of client.go are embedded below as they are
  written; each collaborator is a parameter of the function that calls it, so that a
  statement about client.go holds for whatever the collaborator returns. A byte slice
  and a Go string are both a \<open>string\<close> (a list of bytes).
\<close>

subsection \<open>Errors\<close>

text \<open>
  \<open>ErrorResponse\<close> is the struct the API's error body is decoded into. A Go
  \<open>int\<close> field holds a machine integer; the program only prints it.
\<close>

record ErrorResponse =
  Type :: string
  Title :: string
  Status :: int
  Detail :: string

text \<open>
  Every error value the client returns. \<open>ErrorsNew\<close> is \<open>errors.New\<close>;
  the next five carry the collaborator's own error, tagged with the call that
  returned it (client.go passes each one on unchanged); \<open>ApiError\<close> is the
  \<open>*ErrorResponse\<close> that checkResponse returns.
\<close>

datatype error =
    ErrorsNew string
  | UrlParseError string
  | EncodeError string
  | NewRequestError string
  | TransportError string
  | DecodeError string
  | ApiError ErrorResponse

subsection \<open>Formatting (fmt.Sprintf)\<close>

definition digit_char :: "nat \<Rightarrow> char" where
  "digit_char d = char_of (of_char (CHR ''0'') + d)"

function fmt_nat :: "nat \<Rightarrow> string" where
  "fmt_nat n = (if n < 10 then [digit_char n] else fmt_nat (n div 10) @ [digit_char (n mod 10)])"
  by pat_completeness auto
termination
  by (relation "measure id") auto

text \<open>The verb \<open>%d\<close>: base ten, a minus sign before a negative number.\<close>

definition fmt_d :: "int \<Rightarrow> string" where
  "fmt_d i = (if i < 0 then CHR ''-'' # fmt_nat (nat (- i)) else fmt_nat (nat i))"

text \<open>\<open>fmt.Sprintf("Error %d %s (%s)", e.Status, e.Title, e.Detail)\<close>\<close>

definition Error :: "ErrorResponse \<Rightarrow> string" where
  "Error e = ''Error '' @ fmt_d (Status e) @ '' '' @ Title e @ '' ('' @ Detail e @ '')''"

subsection \<open>strings.Split\<close>

text \<open>
  \<open>strings.Split(s, sep)\<close> for a separator of one byte: the pieces of \<open>s\<close>
  between the separators, empty pieces included; a string without the separator is
  one piece, the empty string too.
\<close>

fun Split :: "string \<Rightarrow> char \<Rightarrow> string list" where
  "Split [] sep = [[]]"
| "Split (c # cs) sep =
     (if c = sep then [] # Split cs sep
      else (c # hd (Split cs sep)) # tl (Split cs sep))"

subsection \<open>The client\<close>

text \<open>
  \<open>'h\<close> is the transport handle (\<open>*http.Client\<close>), \<open>'u\<close> the structured
  URL (\<open>*url.URL\<close>).
\<close>

record ('h, 'u) Client =
  client :: 'h
  baseURL :: 'u
  dc :: string
  apiKey :: string

text \<open>
  The constructor. \<open>url_Parse\<close> is \<open>url.Parse\<close>, \<open>DefaultClient\<close> is
  \<open>http.DefaultClient\<close>; a nil \<open>httpClient\<close> is \<open>None\<close>. The index
  \<open>[1]\<close> is read only where the slice has two elements.
\<close>

definition NewClient ::
  "(string \<Rightarrow> string + 'u) \<Rightarrow> 'h \<Rightarrow> string \<Rightarrow> 'h option \<Rightarrow> error + ('h, 'u) Client" where
  "NewClient url_Parse DefaultClient apiKey' httpClient =
     (if length (Split apiKey' (CHR ''-'')) \<noteq> 2
      then Inl (ErrorsNew ''Mailchimp API Key must be formatted like: xyz-zys'')
      else
        let dc' = Split apiKey' (CHR ''-'') ! 1;
            httpClient' = (case httpClient of None \<Rightarrow> DefaultClient | Some h \<Rightarrow> h)
        in case url_Parse (''https://'' @ dc' @ ''.api.mailchimp.com/3.0'') of
             Inl err \<Rightarrow> Inl (UrlParseError err)
           | Inr baseURL' \<Rightarrow>
               Inr \<lparr>client = httpClient', baseURL = baseURL', dc = dc', apiKey = apiKey'\<rparr>)"

definition GetBaseURL :: "('h, 'u) Client \<Rightarrow> 'u" where
  "GetBaseURL c = baseURL c"

definition SetBaseURL :: "('h, 'u) Client \<Rightarrow> 'u \<Rightarrow> ('h, 'u) Client" where
  "SetBaseURL c baseURL' = c\<lparr>baseURL := baseURL'\<rparr>"

subsection \<open>Responses\<close>

text \<open>
  Of an \<open>*http.Response\<close> the client reads the status code and the body. The body
  is what \<open>ioutil.ReadAll(r.Body)\<close> returns: the bytes (\<open>None\<close> is a nil
  slice) and the read error (\<open>None\<close> is nil).
\<close>

type_synonym body = "string option \<times> string option"

record Response =
  StatusCode :: int
  Body :: body

text \<open>\<open>new(ErrorResponse)\<close>: every field at its zero value.\<close>

definition new_ErrorResponse :: ErrorResponse where
  "new_ErrorResponse = \<lparr>Type = [], Title = [], Status = 0, Detail = []\<rparr>"

text \<open>
  The classifier. \<open>unmarshal data v\<close> is the struct after
  \<open>json.Unmarshal(data, v)\<close>; checkResponse drops the error that call returns.
  \<open>None\<close> is the nil error. The response may carry more fields than the two
  the classifier reads.
\<close>

definition checkResponse ::
  "(string \<Rightarrow> ErrorResponse \<Rightarrow> ErrorResponse) \<Rightarrow> 'a Response_scheme \<Rightarrow> ErrorResponse option" where
  "checkResponse unmarshal r =
     (let c = StatusCode r in
      if 200 \<le> c \<and> c \<le> 299 then None
      else
        let errorResponse = new_ErrorResponse in
        case Body r of
          (Some data, None) \<Rightarrow> Some (unmarshal data errorResponse)
        | _ \<Rightarrow> Some errorResponse)"

subsection \<open>The body as a stream\<close>

text \<open>
  A response body is a stream, and reading it consumes it. \<open>checkResponse\<close>
  above takes the body as what \<open>ioutil.ReadAll\<close> returned; here the read is an
  effect. A stream is the bytes not yet read and the way it ends (\<open>None\<close> is the
  end of file, otherwise a read error). \<open>ReadAll\<close> returns all the unread bytes
  (a slice that is never nil) with the ending, and leaves the stream at its end.
\<close>

type_synonym stream = "string \<times> string option"

definition ReadAll :: "stream \<Rightarrow> body \<times> stream" where
  "ReadAll st = ((Some (fst st), snd st), ([], snd st))"

text \<open>
  An \<open>*http.Response\<close> whose \<open>Body\<close> is the address of a stream in a store
  (a map from addresses to streams): two responses may share a body, and the same
  response may be classified twice.
\<close>

record 'a HttpResponse =
  Code :: int
  BodyAt :: 'a

text \<open>
  checkResponse on such a response, returning the store it leaves: the status test,
  then \<open>ioutil.ReadAll(r.Body)\<close>, which moves the stream, then the decoding of
  what was read.
\<close>

definition checkResponse_io ::
  "(string \<Rightarrow> ErrorResponse \<Rightarrow> ErrorResponse) \<Rightarrow> 'a HttpResponse \<Rightarrow> ('a \<Rightarrow> stream)
     \<Rightarrow> ErrorResponse option \<times> ('a \<Rightarrow> stream)" where
  "checkResponse_io unmarshal r \<sigma> =
     (let c = Code r in
      if 200 \<le> c \<and> c \<le> 299 then (None, \<sigma>)
      else
        let errorResponse = new_ErrorResponse;
            (read, rest) = ReadAll (\<sigma> (BodyAt r));
            \<sigma>' = \<sigma>(BodyAt r := rest)
        in case read of
             (Some data, None) \<Rightarrow> (Some (unmarshal data errorResponse), \<sigma>')
           | _ \<Rightarrow> (Some errorResponse, \<sigma>'))"

subsection \<open>Requests\<close>

text \<open>
  The collaborators of the dispatch primitive, as the functions it calls:
  \<^item> \<open>json_Encode\<close>: \<open>json.NewEncoder(buf).Encode(body)\<close>, the bytes written
    or the encoder's error;
  \<^item> \<open>url_String\<close>: how \<open>%s\<close> prints the base URL;
  \<^item> \<open>http_NewRequest\<close>: \<open>http.NewRequest(method, url, buf)\<close>, where a nil
    \<open>buf\<close> is \<open>None\<close>;
  \<^item> \<open>SetBasicAuth\<close>: \<open>req.SetBasicAuth(username, password)\<close>;
  \<^item> \<open>client_Do\<close>: \<open>c.client.Do(req)\<close>, the only call that reaches the
    network: it takes the state of the world \<open>'w\<close> and returns the new one;
  \<^item> \<open>Body_Close\<close>: the deferred \<open>resp.Body.Close()\<close>;
  \<^item> \<open>json_Unmarshal\<close>: \<open>json.Unmarshal\<close> into an \<open>ErrorResponse\<close>;
  \<^item> \<open>json_Decode\<close>: \<open>json.NewDecoder(resp.Body).Decode(&v)\<close>, the decoded
    value \<open>'v\<close> or the decoder's error.
  \<open>'b\<close> is the type of a request body (an \<open>interface{}\<close> that is not nil),
  \<open>'q\<close> the type of a request.
\<close>

record ('b, 'u, 'q, 'h, 'w, 'v) library =
  json_Encode :: "'b \<Rightarrow> string + string"
  url_String :: "'u \<Rightarrow> string"
  http_NewRequest :: "string \<Rightarrow> string \<Rightarrow> string option \<Rightarrow> string + 'q"
  SetBasicAuth :: "string \<Rightarrow> string \<Rightarrow> 'q \<Rightarrow> 'q"
  client_Do :: "'h \<Rightarrow> 'q \<Rightarrow> 'w \<Rightarrow> (string + Response) \<times> 'w"
  Body_Close :: "Response \<Rightarrow> 'w \<Rightarrow> 'w"
  json_Unmarshal :: "string \<Rightarrow> ErrorResponse \<Rightarrow> ErrorResponse"
  json_Decode :: "body \<Rightarrow> string + 'v"

text \<open>
  The dispatch primitive, threading the state of the world. A nil \<open>body\<close> is
  \<open>None\<close>. Each \<open>return nil, err\<close> of the source is an \<open>Inl\<close> branch,
  in the source's order. The deferred close runs on every path after the transport has
  returned a response; that it runs last does not show here, where what is read from
  the body is a field of the response.
\<close>

definition do ::
  "('b, 'u, 'q, 'h, 'w, 'v) library \<Rightarrow> ('h, 'u) Client \<Rightarrow> string \<Rightarrow> string \<Rightarrow> 'b option \<Rightarrow> 'w
     \<Rightarrow> (error + 'v) \<times> 'w" where
  "do lib c method path body' w =
     (case (case body' of
              None \<Rightarrow> Inr None
            | Some b \<Rightarrow> (case json_Encode lib b of Inl err \<Rightarrow> Inl err | Inr bs \<Rightarrow> Inr (Some bs))) of
        Inl err \<Rightarrow> (Inl (EncodeError err), w)
      | Inr buf \<Rightarrow>
          let apiURL = url_String lib (GetBaseURL c) @ path in
          (case http_NewRequest lib method apiURL buf of
             Inl err \<Rightarrow> (Inl (NewRequestError err), w)
           | Inr req \<Rightarrow>
               let req' = SetBasicAuth lib [] (apiKey c) req in
               (case client_Do lib (client c) req' w of
                  (Inl err, w') \<Rightarrow> (Inl (TransportError err), w')
                | (Inr resp, w') \<Rightarrow>
                    let w'' = Body_Close lib resp w' in
                    (case checkResponse (json_Unmarshal lib) resp of
                       Some err \<Rightarrow> (Inl (ApiError err), w'')
                     | None \<Rightarrow>
                         (case json_Decode lib (Body resp) of
                            Inl err \<Rightarrow> (Inl (DecodeError err), w'')
                          | Inr v \<Rightarrow> (Inr v, w''))))))"

text \<open>
  Subscribe. The payload is the Go map literal \<open>map[string]string\<close> with its two
  keys; the path is \<open>fmt.Sprintf("/lists/%s/members/", listID)\<close>.
\<close>

definition Subscribe ::
  "(string \<rightharpoonup> string, 'u, 'q, 'h, 'w, 'v) library \<Rightarrow> ('h, 'u) Client \<Rightarrow> string \<Rightarrow> string \<Rightarrow> 'w
     \<Rightarrow> (error + 'v) \<times> 'w" where
  "Subscribe lib c email listID w =
     (let data = [''email_address'' \<mapsto> email, ''status'' \<mapsto> ''subscribed'']
      in do lib c ''POST'' (''/lists/'' @ listID @ ''/members/'') (Some data) w)"

section \<open>The collaborators, as the Go standard library has them\<close>

text \<open>
  The theorems about single inputs (a given credential, a given response body) need
  the collaborators' answers at those inputs. This section models the JSON decoder of
  encoding/json for the target type \<open>ErrorResponse\<close>, after the library's own
  structure (a byte-wise scanner, then the decoder that the scanner drives), and
  net/url on the URLs that need no escaping.
\<close>

subsection \<open>encoding/json: the scanner\<close>

text \<open>
  The scanner of encoding/json is a state machine fed one byte at a time. Its
  \<open>step\<close> field names the state function that takes the next byte, its
  \<open>parseState\<close> is the stack of the objects and arrays that are open (the
  head is the innermost), and \<open>endTop\<close> says that the top-level value is
  complete. The state \<open>Failed\<close> is \<open>stateError\<close>: the scanner is in
  it exactly when its \<open>err\<close> field is set.
\<close>

datatype step =
    BeginValueOrEmpty | BeginValue | BeginStringOrEmpty | BeginString | EndValue | EndTop
  | InString | InStringEsc | InStringEscU | InStringEscU1 | InStringEscU12 | InStringEscU123
  | Neg | Digit1 | Digit0 | Dot | Dot0 | Exp | ESign | E0
  | LitT | LitTr | LitTru | LitF | LitFa | LitFal | LitFals | LitN | LitNu | LitNul
  | Failed

datatype parse_state = parseObjectKey | parseObjectValue | parseArrayValue

datatype opcode =
    scanContinue | scanBeginLiteral | scanBeginObject | scanObjectKey | scanObjectValue
  | scanEndObject | scanBeginArray | scanArrayValue | scanEndArray | scanSkipSpace
  | scanEnd | scanError

record scanner =
  step :: step
  parseState :: "parse_state list"
  endTop :: bool

definition byte :: "char \<Rightarrow> nat" where
  "byte c = of_char c"

definition isSpace :: "char \<Rightarrow> bool" where
  "isSpace c = (c = CHR '' '' \<or> c = CHR 0x09 \<or> c = CHR 0x0D \<or> c = CHR 0x0A)"

definition isDigit :: "char \<Rightarrow> bool" where
  "isDigit c = (byte (CHR ''0'') \<le> byte c \<and> byte c \<le> byte (CHR ''9''))"

definition isHex :: "char \<Rightarrow> bool" where
  "isHex c = (isDigit c
     \<or> (byte (CHR ''a'') \<le> byte c \<and> byte c \<le> byte (CHR ''f''))
     \<or> (byte (CHR ''A'') \<le> byte c \<and> byte c \<le> byte (CHR ''F'')))"

definition maxNestingDepth :: nat where
  "maxNestingDepth = 10000"

text \<open>\<open>s.error\<close>, a plain change of state, and the two stack operations.\<close>

definition scan_error :: "scanner \<Rightarrow> scanner \<times> opcode" where
  "scan_error s = (s\<lparr>step := Failed\<rparr>, scanError)"

definition goto :: "scanner \<Rightarrow> step \<Rightarrow> opcode \<Rightarrow> scanner \<times> opcode" where
  "goto s st op = (s\<lparr>step := st\<rparr>, op)"

definition pushParseState :: "scanner \<Rightarrow> parse_state \<Rightarrow> opcode \<Rightarrow> scanner \<times> opcode" where
  "pushParseState s p op =
     (let s' = s\<lparr>parseState := p # parseState s\<rparr>
      in if length (parseState s') \<le> maxNestingDepth then (s', op) else scan_error s')"

definition popParseState :: "scanner \<Rightarrow> scanner" where
  "popParseState s =
     (let ps = tl (parseState s)
      in if ps = [] then s\<lparr>parseState := ps, step := EndTop, endTop := True\<rparr>
         else s\<lparr>parseState := ps, step := EndValue\<rparr>)"

text \<open>The state functions, as scanner.go has them.\<close>

definition stateEndTop :: "scanner \<Rightarrow> char \<Rightarrow> scanner \<times> opcode" where
  "stateEndTop s c = (if \<not> isSpace c then (fst (scan_error s), scanEnd) else (s, scanEnd))"

definition stateEndValue :: "scanner \<Rightarrow> char \<Rightarrow> scanner \<times> opcode" where
  "stateEndValue s c =
     (case parseState s of
        [] \<Rightarrow> stateEndTop (s\<lparr>step := EndTop, endTop := True\<rparr>) c
      | ps # rest \<Rightarrow>
          if isSpace c then goto s EndValue scanSkipSpace
          else (case ps of
             parseObjectKey \<Rightarrow>
               if c = CHR '':'' then goto (s\<lparr>parseState := parseObjectValue # rest\<rparr>) BeginValue scanObjectKey
               else scan_error s
           | parseObjectValue \<Rightarrow>
               if c = CHR '','' then goto (s\<lparr>parseState := parseObjectKey # rest\<rparr>) BeginString scanObjectValue
               else if c = CHR ''}'' then (popParseState s, scanEndObject)
               else scan_error s
           | parseArrayValue \<Rightarrow>
               if c = CHR '','' then goto s BeginValue scanArrayValue
               else if c = CHR '']'' then (popParseState s, scanEndArray)
               else scan_error s))"

definition stateBeginValue :: "scanner \<Rightarrow> char \<Rightarrow> scanner \<times> opcode" where
  "stateBeginValue s c =
     (if isSpace c then (s, scanSkipSpace)
      else if c = CHR ''{'' then pushParseState (s\<lparr>step := BeginStringOrEmpty\<rparr>) parseObjectKey scanBeginObject
      else if c = CHR ''['' then pushParseState (s\<lparr>step := BeginValueOrEmpty\<rparr>) parseArrayValue scanBeginArray
      else if c = CHR 0x22 then goto s InString scanBeginLiteral
      else if c = CHR ''-'' then goto s Neg scanBeginLiteral
      else if c = CHR ''0'' then goto s Digit0 scanBeginLiteral
      else if c = CHR ''t'' then goto s LitT scanBeginLiteral
      else if c = CHR ''f'' then goto s LitF scanBeginLiteral
      else if c = CHR ''n'' then goto s LitN scanBeginLiteral
      else if byte (CHR ''1'') \<le> byte c \<and> byte c \<le> byte (CHR ''9'') then goto s Digit1 scanBeginLiteral
      else scan_error s)"

definition stateBeginValueOrEmpty :: "scanner \<Rightarrow> char \<Rightarrow> scanner \<times> opcode" where
  "stateBeginValueOrEmpty s c =
     (if isSpace c then (s, scanSkipSpace)
      else if c = CHR '']'' then stateEndValue s c
      else stateBeginValue s c)"

definition stateBeginString :: "scanner \<Rightarrow> char \<Rightarrow> scanner \<times> opcode" where
  "stateBeginString s c =
     (if isSpace c then (s, scanSkipSpace)
      else if c = CHR 0x22 then goto s InString scanBeginLiteral
      else scan_error s)"

definition stateBeginStringOrEmpty :: "scanner \<Rightarrow> char \<Rightarrow> scanner \<times> opcode" where
  "stateBeginStringOrEmpty s c =
     (if isSpace c then (s, scanSkipSpace)
      else if c = CHR ''}'' then stateEndValue (s\<lparr>parseState := parseObjectValue # tl (parseState s)\<rparr>) c
      else stateBeginString s c)"

definition stateInString :: "scanner \<Rightarrow> char \<Rightarrow> scanner \<times> opcode" where
  "stateInString s c =
     (if c = CHR 0x22 then goto s EndValue scanContinue
      else if c = CHR 0x5C then goto s InStringEsc scanContinue
      else if byte c < 0x20 then scan_error s
      else (s, scanContinue))"

definition stateInStringEsc :: "scanner \<Rightarrow> char \<Rightarrow> scanner \<times> opcode" where
  "stateInStringEsc s c =
     (if c \<in> set ''bfnrt'' \<or> c = CHR 0x5C \<or> c = CHR ''/'' \<or> c = CHR 0x22 then goto s InString scanContinue
      else if c = CHR ''u'' then goto s InStringEscU scanContinue
      else scan_error s)"

definition hex_then :: "step \<Rightarrow> scanner \<Rightarrow> char \<Rightarrow> scanner \<times> opcode" where
  "hex_then st s c = (if isHex c then goto s st scanContinue else scan_error s)"

definition state0 :: "scanner \<Rightarrow> char \<Rightarrow> scanner \<times> opcode" where
  "state0 s c =
     (if c = CHR ''.'' then goto s Dot scanContinue
      else if c = CHR ''e'' \<or> c = CHR ''E'' then goto s Exp scanContinue
      else stateEndValue s c)"

definition state1 :: "scanner \<Rightarrow> char \<Rightarrow> scanner \<times> opcode" where
  "state1 s c = (if isDigit c then goto s Digit1 scanContinue else state0 s c)"

definition stateNeg :: "scanner \<Rightarrow> char \<Rightarrow> scanner \<times> opcode" where
  "stateNeg s c =
     (if c = CHR ''0'' then goto s Digit0 scanContinue
      else if byte (CHR ''1'') \<le> byte c \<and> byte c \<le> byte (CHR ''9'') then goto s Digit1 scanContinue
      else scan_error s)"

definition stateDot :: "scanner \<Rightarrow> char \<Rightarrow> scanner \<times> opcode" where
  "stateDot s c = (if isDigit c then goto s Dot0 scanContinue else scan_error s)"

definition stateDot0 :: "scanner \<Rightarrow> char \<Rightarrow> scanner \<times> opcode" where
  "stateDot0 s c =
     (if isDigit c then (s, scanContinue)
      else if c = CHR ''e'' \<or> c = CHR ''E'' then goto s Exp scanContinue
      else stateEndValue s c)"

definition stateESign :: "scanner \<Rightarrow> char \<Rightarrow> scanner \<times> opcode" where
  "stateESign s c = (if isDigit c then goto s E0 scanContinue else scan_error s)"

definition stateE :: "scanner \<Rightarrow> char \<Rightarrow> scanner \<times> opcode" where
  "stateE s c =
     (if c = CHR ''+'' \<or> c = CHR ''-'' then goto s ESign scanContinue else stateESign s c)"

definition stateE0 :: "scanner \<Rightarrow> char \<Rightarrow> scanner \<times> opcode" where
  "stateE0 s c = (if isDigit c then (s, scanContinue) else stateEndValue s c)"

definition expect :: "char \<Rightarrow> step \<Rightarrow> scanner \<Rightarrow> char \<Rightarrow> scanner \<times> opcode" where
  "expect x st s c = (if c = x then goto s st scanContinue else scan_error s)"

definition scan_step :: "scanner \<Rightarrow> char \<Rightarrow> scanner \<times> opcode" where
  "scan_step s c =
     (case step s of
        BeginValueOrEmpty \<Rightarrow> stateBeginValueOrEmpty s c
      | BeginValue \<Rightarrow> stateBeginValue s c
      | BeginStringOrEmpty \<Rightarrow> stateBeginStringOrEmpty s c
      | BeginString \<Rightarrow> stateBeginString s c
      | EndValue \<Rightarrow> stateEndValue s c
      | EndTop \<Rightarrow> stateEndTop s c
      | InString \<Rightarrow> stateInString s c
      | InStringEsc \<Rightarrow> stateInStringEsc s c
      | InStringEscU \<Rightarrow> hex_then InStringEscU1 s c
      | InStringEscU1 \<Rightarrow> hex_then InStringEscU12 s c
      | InStringEscU12 \<Rightarrow> hex_then InStringEscU123 s c
      | InStringEscU123 \<Rightarrow> hex_then InString s c
      | Neg \<Rightarrow> stateNeg s c
      | Digit1 \<Rightarrow> state1 s c
      | Digit0 \<Rightarrow> state0 s c
      | Dot \<Rightarrow> stateDot s c
      | Dot0 \<Rightarrow> stateDot0 s c
      | Exp \<Rightarrow> stateE s c
      | ESign \<Rightarrow> stateESign s c
      | E0 \<Rightarrow> stateE0 s c
      | LitT \<Rightarrow> expect (CHR ''r'') LitTr s c
      | LitTr \<Rightarrow> expect (CHR ''u'') LitTru s c
      | LitTru \<Rightarrow> expect (CHR ''e'') EndValue s c
      | LitF \<Rightarrow> expect (CHR ''a'') LitFa s c
      | LitFa \<Rightarrow> expect (CHR ''l'') LitFal s c
      | LitFal \<Rightarrow> expect (CHR ''s'') LitFals s c
      | LitFals \<Rightarrow> expect (CHR ''e'') EndValue s c
      | LitN \<Rightarrow> expect (CHR ''u'') LitNu s c
      | LitNu \<Rightarrow> expect (CHR ''l'') LitNul s c
      | LitNul \<Rightarrow> expect (CHR ''l'') EndValue s c
      | Failed \<Rightarrow> (s, scanError))"

text \<open>
  \<open>checkValid\<close>: the bytes are one JSON value with white space around it.
  At the end of the input, a number that is still open is closed by a space.
\<close>

definition scanner_reset :: scanner where
  "scanner_reset = \<lparr>step = BeginValue, parseState = [], endTop = False\<rparr>"

definition scan_eof :: "scanner \<Rightarrow> bool" where
  "scan_eof s =
     (if step s = Failed then False
      else if endTop s then True
      else endTop (fst (scan_step s (CHR '' ''))))"

definition checkValid :: "string \<Rightarrow> bool" where
  "checkValid data = scan_eof (foldl (\<lambda>s c. fst (scan_step s c)) scanner_reset data)"

subsection \<open>unicode/utf8\<close>

definition RuneError :: nat where
  "RuneError = 0xFFFD"

text \<open>A continuation byte.\<close>

definition cont :: "char \<Rightarrow> bool" where
  "cont c = (0x80 \<le> byte c \<and> byte c \<le> 0xBF)"

text \<open>\<open>utf8.DecodeRune\<close>: the rune at the head of the bytes and its width.\<close>

definition DecodeRune :: "string \<Rightarrow> nat \<times> nat" where
  "DecodeRune p =
     (case p of
        [] \<Rightarrow> (RuneError, 0)
      | p0 # p' \<Rightarrow>
          let b0 = byte p0 in
          if b0 < 0x80 then (b0, 1)
          else if b0 < 0xC2 \<or> 0xF4 < b0 then (RuneError, 1)
          else
            let sz = (if b0 < 0xE0 then 2 else if b0 < 0xF0 then 3 else 4 :: nat);
                lo = (if b0 = 0xE0 then 0xA0 else if b0 = 0xF0 then 0x90 else 0x80 :: nat);
                hi = (if b0 = 0xED then 0x9F else if b0 = 0xF4 then 0x8F else 0xBF :: nat)
            in if length p < sz then (RuneError, 1)
               else
                 let b1 = byte (p ! 1) in
                 if b1 < lo \<or> hi < b1 then (RuneError, 1)
                 else if sz = 2 then ((b0 mod 0x20) * 0x40 + b1 mod 0x40, 2)
                 else if \<not> cont (p ! 2) then (RuneError, 1)
                 else if sz = 3 then
                   ((b0 mod 0x10) * 0x1000 + (b1 mod 0x40) * 0x40 + byte (p ! 2) mod 0x40, 3)
                 else if \<not> cont (p ! 3) then (RuneError, 1)
                 else ((b0 mod 0x08) * 0x40000 + (b1 mod 0x40) * 0x1000
                       + (byte (p ! 2) mod 0x40) * 0x40 + byte (p ! 3) mod 0x40, 4))"

text \<open>\<open>utf8.EncodeRune\<close>: a surrogate or a rune past U+10FFFF is written as U+FFFD.\<close>

definition EncodeRune :: "nat \<Rightarrow> string" where
  "EncodeRune r =
     (let r = (if (0xD800 \<le> r \<and> r \<le> 0xDFFF) \<or> 0x10FFFF < r then RuneError else r) in
      if r < 0x80 then [char_of r]
      else if r < 0x800 then [char_of (0xC0 + r div 0x40), char_of (0x80 + r mod 0x40)]
      else if r < 0x10000 then
        [char_of (0xE0 + r div 0x1000), char_of (0x80 + (r div 0x40) mod 0x40), char_of (0x80 + r mod 0x40)]
      else
        [char_of (0xF0 + r div 0x40000), char_of (0x80 + (r div 0x1000) mod 0x40),
         char_of (0x80 + (r div 0x40) mod 0x40), char_of (0x80 + r mod 0x40)])"

subsection \<open>encoding/json: string literals\<close>

definition unhex :: "char \<Rightarrow> nat" where
  "unhex c =
     (if isDigit c then byte c - byte (CHR ''0'')
      else if byte (CHR ''a'') \<le> byte c \<and> byte c \<le> byte (CHR ''f'') then byte c - byte (CHR ''a'') + 10
      else byte c - byte (CHR ''A'') + 10)"

text \<open>\<open>getu4\<close>: the code unit of a leading \<open>\uXXXX\<close>; \<open>None\<close> is -1.\<close>

definition getu4 :: "string \<Rightarrow> nat option" where
  "getu4 s =
     (if length s < 6 \<or> s ! 0 \<noteq> CHR 0x5C \<or> s ! 1 \<noteq> CHR ''u'' then None
      else if \<not> (isHex (s ! 2) \<and> isHex (s ! 3) \<and> isHex (s ! 4) \<and> isHex (s ! 5)) then None
      else Some (((unhex (s ! 2) * 16 + unhex (s ! 3)) * 16 + unhex (s ! 4)) * 16 + unhex (s ! 5)))"

definition IsSurrogate :: "nat \<Rightarrow> bool" where
  "IsSurrogate r = (0xD800 \<le> r \<and> r < 0xE000)"

text \<open>\<open>utf16.DecodeRune\<close> on a first unit and the unit that follows, if any.\<close>

definition utf16_DecodeRune :: "nat \<Rightarrow> nat option \<Rightarrow> nat" where
  "utf16_DecodeRune r1 r2' =
     (case r2' of
        None \<Rightarrow> RuneError
      | Some r2 \<Rightarrow>
          if 0xD800 \<le> r1 \<and> r1 < 0xDC00 \<and> 0xDC00 \<le> r2 \<and> r2 < 0xE000
          then (r1 - 0xD800) * 0x400 + (r2 - 0xDC00) + 0x10000
          else RuneError)"

text \<open>
  The loop of \<open>unquoteBytes\<close> over the bytes between the quotes: escapes are
  replaced, bytes that are no UTF-8 become U+FFFD; \<open>None\<close> is \<open>ok = false\<close>.
\<close>

fun unquote_loop :: "string \<Rightarrow> string option" where
  "unquote_loop [] = Some []"
| "unquote_loop (c # s) =
     (if c = CHR 0x5C then
        (case s of
           [] \<Rightarrow> None
         | e # s' \<Rightarrow>
             if e = CHR 0x22 \<or> e = CHR 0x5C \<or> e = CHR ''/'' \<or> e = CHR 0x27
               then map_option ((#) e) (unquote_loop s')
             else if e = CHR ''b'' then map_option ((#) (CHR 0x08)) (unquote_loop s')
             else if e = CHR ''f'' then map_option ((#) (CHR 0x0C)) (unquote_loop s')
             else if e = CHR ''n'' then map_option ((#) (CHR 0x0A)) (unquote_loop s')
             else if e = CHR ''r'' then map_option ((#) (CHR 0x0D)) (unquote_loop s')
             else if e = CHR ''t'' then map_option ((#) (CHR 0x09)) (unquote_loop s')
             else if e = CHR ''u'' then
               (case getu4 (c # s) of
                  None \<Rightarrow> None
                | Some rr \<Rightarrow>
                    if IsSurrogate rr then
                      (let dec = utf16_DecodeRune rr (getu4 (drop 5 s)) in
                       if dec \<noteq> RuneError
                       then map_option ((@) (EncodeRune dec)) (unquote_loop (drop 11 s))
                       else map_option ((@) (EncodeRune RuneError)) (unquote_loop (drop 5 s)))
                    else map_option ((@) (EncodeRune rr)) (unquote_loop (drop 5 s)))
             else None)
      else if c = CHR 0x22 \<or> byte c < 0x20 then None
      else if byte c < 0x80 then map_option ((#) c) (unquote_loop s)
      else
        (case DecodeRune (c # s) of
           (rr, n) \<Rightarrow> map_option ((@) (EncodeRune rr)) (unquote_loop (drop (n - 1) s))))"

definition unquoteBytes :: "string \<Rightarrow> string option" where
  "unquoteBytes s =
     (if length s < 2 \<or> hd s \<noteq> CHR 0x22 \<or> last s \<noteq> CHR 0x22 then None
      else unquote_loop (butlast (tl s)))"


subsection \<open>strconv.ParseInt\<close>

text \<open>\<open>strconv.ParseInt(s, 10, 64)\<close>; \<open>None\<close> is a syntax or a range error.\<close>

definition digits_value :: "string \<Rightarrow> nat" where
  "digits_value ds = foldl (\<lambda>a c. a * 10 + (byte c - byte (CHR ''0''))) 0 ds"

definition ParseInt :: "string \<Rightarrow> int option" where
  "ParseInt s =
     (let neg = (s \<noteq> [] \<and> hd s = CHR ''-'');
          ds = (if s \<noteq> [] \<and> (hd s = CHR ''+'' \<or> hd s = CHR ''-'') then tl s else s)
      in if ds = [] \<or> \<not> list_all isDigit ds then None
         else
           let un = digits_value ds in
           if \<not> neg \<and> 2 ^ 63 \<le> un then None
           else if neg \<and> 2 ^ 63 < un then None
           else Some (if neg then - int un else int un))"

subsection \<open>encoding/json: decoding into an ErrorResponse\<close>

text \<open>
  The fields of the struct with the names of their \<open>json\<close> tags. A key selects
  a field by its exact name or else by its folded name: ASCII letters in upper case,
  every other rune replaced by the smallest rune of its case-folding orbit. Only the
  long s (U+017F) and the Kelvin sign (U+212A) fold to an ASCII letter; the fold of any
  other rune outside ASCII stays outside ASCII, where no field name has a letter, so
  \<open>foldRune\<close> keeps such a rune as it is.
\<close>

datatype field = FieldType | FieldTitle | FieldStatus | FieldDetail

definition fields :: "(string \<times> field) list" where
  "fields = [(''type'', FieldType), (''title'', FieldTitle), (''status'', FieldStatus),
             (''detail'', FieldDetail)]"

definition foldRune :: "nat \<Rightarrow> nat" where
  "foldRune r = (if r = 0x17F then 0x53 else if r = 0x212A then 0x4B else r)"

fun foldName :: "string \<Rightarrow> string" where
  "foldName [] = []"
| "foldName (c # s) =
     (if byte c < 0x80 then
        (if byte (CHR ''a'') \<le> byte c \<and> byte c \<le> byte (CHR ''z'') then char_of (byte c - 0x20) else c)
          # foldName s
      else (case DecodeRune (c # s) of (r, n) \<Rightarrow> EncodeRune (foldRune r) @ foldName (drop (n - 1) s)))"

definition lookup_field :: "string \<Rightarrow> field option" where
  "lookup_field k =
     (case map_of fields k of
        Some f \<Rightarrow> Some f
      | None \<Rightarrow> map_of (map (\<lambda>(n, f). (foldName n, f)) fields) (foldName k))"

text \<open>
  \<open>literalStore\<close> for a field of kind string or int: null is ignored; a
  string goes into a string field, a number into the int field when it is a decimal
  integer of 64 bits; anything else is a type error, which leaves the field as it was.
\<close>

definition literalStore :: "string \<Rightarrow> field \<Rightarrow> ErrorResponse \<Rightarrow> ErrorResponse" where
  "literalStore item f v =
     (let c = hd item in
      if c = CHR ''n'' then v
      else if c = CHR ''t'' \<or> c = CHR ''f'' then v
      else if c = CHR 0x22 then
        (case unquoteBytes item of
           None \<Rightarrow> v
         | Some s \<Rightarrow>
             (case f of
                FieldType \<Rightarrow> v\<lparr>Type := s\<rparr>
              | FieldTitle \<Rightarrow> v\<lparr>Title := s\<rparr>
              | FieldStatus \<Rightarrow> v
              | FieldDetail \<Rightarrow> v\<lparr>Detail := s\<rparr>))
      else
        (case f of
           FieldStatus \<Rightarrow> (case ParseInt item of None \<Rightarrow> v | Some n \<Rightarrow> v\<lparr>Status := n\<rparr>)
         | _ \<Rightarrow> v))"

text \<open>
  The decoder reads the bytes once, driven by the scanner. A literal is complete at
  the first byte the scanner does not count to it; the scanner's stack before that byte
  tells whether the literal was a key or a value of the outermost object. Values
  nested deeper, and a document that is no object, change nothing.
\<close>

record decodeState =
  scan :: scanner
  lit :: string
  key :: "field option"
  dst :: ErrorResponse

definition literal_end :: "decodeState \<Rightarrow> decodeState" where
  "literal_end d =
     (case parseState (scan d) of
        [parseObjectKey] \<Rightarrow>
          d\<lparr>key := (case unquoteBytes (lit d) of None \<Rightarrow> None | Some k \<Rightarrow> lookup_field k)\<rparr>
      | [parseObjectValue] \<Rightarrow>
          (case key d of None \<Rightarrow> d | Some f \<Rightarrow> d\<lparr>dst := literalStore (lit d) f (dst d)\<rparr>)
      | _ \<Rightarrow> d)"

definition decode_step :: "decodeState \<Rightarrow> char \<Rightarrow> decodeState" where
  "decode_step d c =
     (case scan_step (scan d) c of
        (s', op) \<Rightarrow>
          if op = scanContinue then d\<lparr>scan := s', lit := lit d @ [c]\<rparr>
          else (if lit d = [] then d else literal_end d)
                 \<lparr>scan := s', lit := (if op = scanBeginLiteral then [c] else [])\<rparr>)"

text \<open>
  \<open>json.Unmarshal(data, v)\<close> for \<open>v\<close> of type
  \<open>*ErrorResponse\<close>, as the struct it leaves behind: untouched when the bytes
  are not valid JSON, and with the decoded fields otherwise.
\<close>

definition Unmarshal :: "string \<Rightarrow> ErrorResponse \<Rightarrow> ErrorResponse" where
  "Unmarshal data v =
     (if checkValid data
      then dst (foldl decode_step \<lparr>scan = scanner_reset, lit = [], key = None, dst = v\<rparr> data)
      else v)"

subsection \<open>net/url on plain URLs\<close>

text \<open>
  Of a \<open>url.URL\<close>, the three fields that are not empty for a URL of the form
  \<open>scheme://host/path\<close>.
\<close>

record URL =
  Scheme :: string
  Host :: string
  Path :: string

definition isLower :: "char \<Rightarrow> bool" where
  "isLower c = (byte (CHR ''a'') \<le> byte c \<and> byte c \<le> byte (CHR ''z''))"

definition isAlnum :: "char \<Rightarrow> bool" where
  "isAlnum c = (isLower c \<or> isDigit c \<or> (byte (CHR ''A'') \<le> byte c \<and> byte c \<le> byte (CHR ''Z'')))"

definition plain_host_char :: "char \<Rightarrow> bool" where
  "plain_host_char c = (isAlnum c \<or> c = CHR ''.'' \<or> c = CHR ''-'')"

definition plain_path_char :: "char \<Rightarrow> bool" where
  "plain_path_char c = (isAlnum c \<or> c = CHR ''/'' \<or> c = CHR ''.'' \<or> c = CHR ''-'' \<or> c = CHR ''_'')"

text \<open>
  \<open>url.Parse\<close> on plain URLs: a scheme of lower-case letters, \<open>://\<close>, a host
  that is not empty, of letters, digits, dots and hyphens, and a path that is empty or
  starts at the first slash, of letters, digits and \<open>/ . - _\<close>. On these the
  library finds no user, port, query or fragment and nothing to unescape, and returns
  the three parts as they stand. The library accepts many more URLs; this model
  answers \<open>Inl\<close> on all of them, so only what it accepts is used below.
\<close>

definition url_Parse_plain :: "string \<Rightarrow> string + URL" where
  "url_Parse_plain rawURL =
     (let scheme = takeWhile isLower rawURL;
          rest = dropWhile isLower rawURL;
          authority = takeWhile (\<lambda>c. c \<noteq> CHR ''/'') (drop 3 rest);
          path = dropWhile (\<lambda>c. c \<noteq> CHR ''/'') (drop 3 rest)
      in if scheme \<noteq> [] \<and> take 3 rest = ''://'' \<and> authority \<noteq> []
            \<and> list_all plain_host_char authority \<and> list_all plain_path_char path
         then Inr \<lparr>Scheme = scheme, Host = authority, Path = path\<rparr>
         else Inl ''not a plain URL'')"

text \<open>\<open>(*URL).String\<close> on the URLs of \<open>url_Parse_plain\<close>.\<close>

definition url_String_plain :: "URL \<Rightarrow> string" where
  "url_String_plain u = Scheme u @ ''://'' @ Host u @ Path u"

subsection \<open>Inputs of the examples\<close>

text \<open>The error body of the spec's example, and a body that is no JSON.\<close>

definition body_not_found :: string where
  \<open>body_not_found = ''{"type":"t","title":"Not Found","status":404,"detail":"x"}''\<close>

definition body_html :: string where
  \<open>body_html = ''<html>Bad Gateway</html>''\<close>

text \<open>A body that is valid JSON with a string where the envelope has its integer.\<close>

definition body_status_string :: string where
  \<open>body_status_string = ''{"title":"Teapot","status":"418"}''\<close>

text \<open>A store in which every body stream holds the error body of the example, unread.\<close>

definition not_found_store :: "nat \<Rightarrow> stream" where
  "not_found_store = (\<lambda>a. (body_not_found, None))"

text \<open>
  A library whose encoder refuses every body (as encoding/json refuses a channel),
  for a world that counts the requests sent.
\<close>

definition refusing_library :: "(unit, URL, unit, unit, nat, unit) library" where
  "refusing_library =
     \<lparr>json_Encode = (\<lambda>b. Inl ''json: unsupported type: chan int''),
      url_String = url_String_plain,
      http_NewRequest = (\<lambda>method url buf. Inr ()),
      SetBasicAuth = (\<lambda>username password req. req),
      client_Do = (\<lambda>h req w. (Inl ''connection refused'', Suc w)),
      Body_Close = (\<lambda>resp w. w),
      json_Unmarshal = Unmarshal,
      json_Decode = (\<lambda>b. Inr ())\<rparr>"

text \<open>The claim that both segments of the credential are non-empty, in its words.\<close>

definition two_nonempty_segments :: "string \<Rightarrow> bool" where
  "two_nonempty_segments apiKey' =
     (case Split apiKey' (CHR ''-'') of [a, b] \<Rightarrow> a \<noteq> [] \<and> b \<noteq> [] | _ \<Rightarrow> False)"

section \<open>Properties\<close>

subsection \<open>strings.Split and the separator count\<close>

lemma Split_not_Nil: "Split s sep \<noteq> []"
  by (induction s) auto

lemma length_Split: "length (Split s sep) = Suc (count_list s sep)"
proof (induction s)
  case Nil
  show ?case by simp
next
  case (Cons c cs)
  have "length (tl (Split cs sep)) = count_list cs sep"
    using Cons.IH by simp
  then show ?case using Cons.IH by simp
qed

lemma Split_no_separator: "count_list s sep = 0 \<Longrightarrow> Split s sep = [s]"
  by (induction s) (auto split: if_splits)

lemma Split_one_separator:
  "count_list s sep = 1 \<Longrightarrow>
     Split s sep = [takeWhile (\<lambda>c. c \<noteq> sep) s, tl (dropWhile (\<lambda>c. c \<noteq> sep) s)]"
proof (induction s)
  case Nil
  then show ?case by simp
next
  case (Cons c cs)
  show ?case
  proof (cases "c = sep")
    case True
    with Cons.prems have "count_list cs sep = 0" by simp
    with True show ?thesis by (simp add: Split_no_separator)
  next
    case False
    with Cons.prems have "count_list cs sep = 1" by simp
    with False Cons.IH show ?thesis by simp
  qed
qed

lemma Split_join:
  "count_list s sep = 1 \<Longrightarrow> s = takeWhile (\<lambda>c. c \<noteq> sep) s @ sep # tl (dropWhile (\<lambda>c. c \<noteq> sep) s)"
proof -
  assume a: "count_list s sep = 1"
  have "sep \<in> set s" using a count_list_0_iff[of s sep] by auto
  then have "dropWhile (\<lambda>c. c \<noteq> sep) s \<noteq> []" by (auto simp: dropWhile_eq_Nil_conv)
  moreover have "hd (dropWhile (\<lambda>c. c \<noteq> sep) s) = sep"
    using calculation hd_dropWhile[of "\<lambda>c. c \<noteq> sep" s] by auto
  ultimately have "dropWhile (\<lambda>c. c \<noteq> sep) s = sep # tl (dropWhile (\<lambda>c. c \<noteq> sep) s)"
    by (cases "dropWhile (\<lambda>c. c \<noteq> sep) s") auto
  then show ?thesis
    using takeWhile_dropWhile_id[of "\<lambda>c. c \<noteq> sep" s] by metis
qed




lemma Split_two:
  "sep \<notin> set a \<Longrightarrow> sep \<notin> set b \<Longrightarrow> Split (a @ sep # b) sep = [a, b]"
proof (induction a)
  case Nil
  then show ?case by (simp add: Split_no_separator count_list_0_iff)
next
  case (Cons c cs)
  from Cons.prems have ne: "c \<noteq> sep" by auto
  from Cons.prems have "sep \<notin> set cs" by auto
  then have ih: "Split (cs @ sep # b) sep = [cs, b]" using Cons.IH Cons.prems(2) by blast
  have "Split ((c # cs) @ sep # b) sep =
          (c # hd (Split (cs @ sep # b) sep)) # tl (Split (cs @ sep # b) sep)"
    using ne by simp
  then show ?case by (simp only: ih list.sel)
qed

lemma one_separator_parts:
  "count_list s sep = 1 \<Longrightarrow> \<exists>a b. s = a @ sep # b \<and> sep \<notin> set a \<and> sep \<notin> set b"
proof -
  assume one: "count_list s sep = 1"
  let ?a = "takeWhile (\<lambda>c. c \<noteq> sep) s" and ?b = "tl (dropWhile (\<lambda>c. c \<noteq> sep) s)"
  have s: "s = ?a @ sep # ?b" using one by (rule Split_join)
  have a: "sep \<notin> set ?a" by (auto dest: set_takeWhileD)
  then have a0: "count_list ?a sep = 0" by (metis count_list_0_iff)
  have "count_list (?a @ sep # ?b) sep = 1" using one s by argo
  then have "count_list ?b sep = 0" using a0 by simp
  then have "sep \<notin> set ?b" by (metis count_list_0_iff)
  with s a show ?thesis by blast
qed



subsection \<open>The collaborators at the inputs of the examples\<close>

lemmas url_plain_defs = url_Parse_plain_def url_String_plain_def isLower_def isAlnum_def isDigit_def
  byte_def plain_host_char_def plain_path_char_def

lemma url_Parse_plain_us11:
  "url_Parse_plain ''https://us11.api.mailchimp.com/3.0''
     = Inr \<lparr>Scheme = ''https'', Host = ''us11.api.mailchimp.com'', Path = ''/3.0''\<rparr>"
  by (simp add: url_plain_defs)

lemma Unmarshal_invalid: "\<not> checkValid data \<Longrightarrow> Unmarshal data v = v"
  by (simp add: Unmarshal_def)

lemma checkValid_empty: "\<not> checkValid []"
  by code_simp

lemma checkValid_html: "\<not> checkValid body_html"
  by code_simp

lemma Unmarshal_not_found:
  "Unmarshal body_not_found new_ErrorResponse =
     \<lparr>Type = ''t'', Title = ''Not Found'', Status = 404, Detail = ''x''\<rparr>"
  by code_simp

text \<open>
  A body that is valid JSON is decoded field by field: a value of the wrong kind is
  skipped, the fields that fit are stored.
\<close>

lemma Unmarshal_status_string:
  "checkValid body_status_string \<and>
   Unmarshal body_status_string new_ErrorResponse =
     \<lparr>Type = [], Title = ''Teapot'', Status = 0, Detail = []\<rparr>"
  by code_simp

subsection \<open>The verb \<open>%d\<close> prints the decimal numeral\<close>

lemma byte_digit_char: "d < 10 \<Longrightarrow> byte (digit_char d) = 48 + d"
  by (simp add: byte_def digit_char_def)

lemma isDigit_digit_char: "d < 10 \<Longrightarrow> isDigit (digit_char d)"
  by (simp add: isDigit_def byte_digit_char) (simp add: byte_def)

lemma digit_char_not_sign: "d < 10 \<Longrightarrow> digit_char d \<noteq> CHR ''-'' \<and> digit_char d \<noteq> CHR ''+''"
proof -
  assume d: "d < 10"
  have "byte (digit_char d) \<noteq> byte (CHR ''-'') \<and> byte (digit_char d) \<noteq> byte (CHR ''+'')"
    using d by (simp add: byte_digit_char) (simp add: byte_def)
  then show ?thesis by auto
qed

lemma digits_value_snoc: "digits_value (ds @ [c]) = digits_value ds * 10 + (byte c - 48)"
  by (simp add: digits_value_def byte_def)

lemma fmt_nat_digits:
  "fmt_nat n \<noteq> [] \<and> list_all isDigit (fmt_nat n) \<and> digits_value (fmt_nat n) = n
   \<and> hd (fmt_nat n) \<noteq> CHR ''-'' \<and> hd (fmt_nat n) \<noteq> CHR ''+''"
proof (induction n rule: fmt_nat.induct)
  case (1 n)
  show ?case
  proof (cases "n < 10")
    case True
    then have f: "fmt_nat n = [digit_char n]" by (simp add: fmt_nat.simps)
    have "digits_value [digit_char n] = n"
      using digits_value_snoc[of "[]" "digit_char n"] True
      by (simp add: byte_digit_char digits_value_def)
    with True f show ?thesis
      by (simp add: isDigit_digit_char digit_char_not_sign)
  next
    case False
    then have f: "fmt_nat n = fmt_nat (n div 10) @ [digit_char (n mod 10)]"
      by (subst fmt_nat.simps) simp
    note ih = "1.IH"[OF False]
    have m: "n mod 10 < 10" by simp
    have v: "digits_value (fmt_nat n) = n"
      unfolding f digits_value_snoc using ih m by (simp add: byte_digit_char)
    from ih m show ?thesis unfolding f using v[unfolded f]
      by (simp add: isDigit_digit_char)
  qed
qed

text \<open>Reading back what \<open>%d\<close> printed gives the number, for every 64-bit integer.\<close>

lemma ParseInt_fmt_d:
  assumes "- (2 ^ 63) \<le> i" and "i < 2 ^ 63"
  shows "ParseInt (fmt_d i) = Some i"
proof (cases "i < 0")
  case True
  let ?n = "nat (- i)"
  note d = fmt_nat_digits[of ?n]
  have le: "?n \<le> 2 ^ 63" using assms(1) True by (simp add: nat_le_iff)
  have "ParseInt (CHR ''-'' # fmt_nat ?n) = Some (- int ?n)"
    using d le by (simp add: ParseInt_def Let_def)
  with True show ?thesis by (simp add: fmt_d_def)
next
  case False
  let ?n = "nat i"
  note d = fmt_nat_digits[of ?n]
  have lt: "?n < 2 ^ 63" using assms(2) False by (simp add: nat_less_iff)
  have "ParseInt (fmt_nat ?n) = Some (int ?n)"
    using d lt by (simp add: ParseInt_def Let_def)
  with False show ?thesis by (simp add: fmt_d_def)
qed

lemma fmt_d_0: "fmt_d 0 = ''0''"
  by code_simp

lemma fmt_d_404: "fmt_d 404 = ''404''"
  by code_simp

lemma Error_zero: "Error new_ErrorResponse = ''Error 0  ()''"
  by (simp add: Error_def new_ErrorResponse_def fmt_d_0)

subsection \<open>The constructor\<close>

lemma NewClient_wrong_count:
  "count_list k (CHR ''-'') \<noteq> 1 \<Longrightarrow>
     NewClient P D k hc = Inl (ErrorsNew ''Mailchimp API Key must be formatted like: xyz-zys'')"
  by (simp add: NewClient_def length_Split)

lemma NewClient_two_segments:
  assumes "CHR ''-'' \<notin> set a" and "CHR ''-'' \<notin> set b"
  shows "NewClient P D (a @ ''-'' @ b) hc =
          (case P (''https://'' @ b @ ''.api.mailchimp.com/3.0'') of
             Inl err \<Rightarrow> Inl (UrlParseError err)
           | Inr u \<Rightarrow> Inr \<lparr>client = (case hc of None \<Rightarrow> D | Some h \<Rightarrow> h), baseURL = u,
                           dc = b, apiKey = a @ ''-'' @ b\<rparr>)"
proof -
  have "Split (a @ CHR ''-'' # b) (CHR ''-'') = [a, b]" using assms by (rule Split_two)
  then show ?thesis by (simp add: NewClient_def Let_def split: sum.splits)
qed

lemma NewClient_success:
  assumes ok: "NewClient P D k hc = Inr c"
  shows "count_list k (CHR ''-'') = 1 \<and> apiKey c = k \<and> (\<exists>a. k = a @ ''-'' @ dc c)
        \<and> P (''https://'' @ dc c @ ''.api.mailchimp.com/3.0'') = Inr (baseURL c)"
proof -
  have one: "count_list k (CHR ''-'') = 1"
  proof (rule ccontr)
    assume "count_list k (CHR ''-'') \<noteq> 1"
    then have "NewClient P D k hc = Inl (ErrorsNew ''Mailchimp API Key must be formatted like: xyz-zys'')"
      by (rule NewClient_wrong_count)
    with ok show False by simp
  qed
  from one_separator_parts[OF one]
  obtain a b where k: "k = a @ CHR ''-'' # b" and a: "CHR ''-'' \<notin> set a" and b: "CHR ''-'' \<notin> set b"
    by (elim exE conjE)
  have k': "k = a @ ''-'' @ b" using k by simp
  note nc = NewClient_two_segments[OF a b, of P D hc, folded k']
  have r: "dc c = b \<and> apiKey c = k \<and> P (''https://'' @ b @ ''.api.mailchimp.com/3.0'') = Inr (baseURL c)"
  proof (cases "P (''https://'' @ b @ ''.api.mailchimp.com/3.0'')")
    case (Inl err)
    with ok nc show ?thesis by simp
  next
    case (Inr u)
    with ok nc have "c = \<lparr>client = (case hc of None \<Rightarrow> D | Some h \<Rightarrow> h), baseURL = u, dc = b, apiKey = k\<rparr>"
      by simp
    with Inr show ?thesis by simp
  qed
  have "k = a @ ''-'' @ dc c" using k r by simp
  then have "\<exists>a. k = a @ ''-'' @ dc c" ..
  with one r show ?thesis by simp
qed

text \<open>
  Claim C1, as the code has it. NewClient counts the pieces of the credential and
  looks at nothing else: a credential that does not hold the separator \<open>-\<close>
  exactly once is refused with the format error and no client; a client is returned
  only for a credential \<open>a-b\<close> with one separator, its \<open>dc\<close> is \<open>b\<close>,
  and its base URL is what the URL parser made of
  \<open>https://b.api.mailchimp.com/3.0\<close>; when the parser refuses that text, its
  error is returned instead. Either piece may be empty.
\<close>

theorem NewClient_one_separator:
  "(count_list k (CHR ''-'') \<noteq> 1 \<longrightarrow>
      NewClient P D k hc = Inl (ErrorsNew ''Mailchimp API Key must be formatted like: xyz-zys''))
   \<and> (\<forall>c. NewClient P D k hc = Inr c \<longrightarrow>
        count_list k (CHR ''-'') = 1 \<and> apiKey c = k \<and> (\<exists>a. k = a @ ''-'' @ dc c)
        \<and> P (''https://'' @ dc c @ ''.api.mailchimp.com/3.0'') = Inr (baseURL c))
   \<and> (CHR ''-'' \<notin> set a \<and> CHR ''-'' \<notin> set b \<longrightarrow>
        NewClient P D (a @ ''-'' @ b) hc =
          (case P (''https://'' @ b @ ''.api.mailchimp.com/3.0'') of
             Inl err \<Rightarrow> Inl (UrlParseError err)
           | Inr u \<Rightarrow> Inr \<lparr>client = (case hc of None \<Rightarrow> D | Some h \<Rightarrow> h), baseURL = u,
                           dc = b, apiKey = a @ ''-'' @ b\<rparr>))"
  using NewClient_wrong_count[of k P D hc] NewClient_success[of P D k hc]
    NewClient_two_segments[of a b P D hc]
  by blast

text \<open>
  The theorem at credentials with two separators and with none, and at a credential
  with one.
\<close>

theorem NewClient_one_separator_witness:
  "count_list ''a-b-c'' (CHR ''-'') \<noteq> 1
   \<and> NewClient url_Parse_plain () ''a-b-c'' None
       = Inl (ErrorsNew ''Mailchimp API Key must be formatted like: xyz-zys'')
   \<and> count_list ''abc123'' (CHR ''-'') \<noteq> 1
   \<and> NewClient url_Parse_plain () ''abc123'' None
       = Inl (ErrorsNew ''Mailchimp API Key must be formatted like: xyz-zys'')
   \<and> CHR ''-'' \<notin> set ''abc123'' \<and> CHR ''-'' \<notin> set ''us11''
   \<and> NewClient url_Parse_plain () (''abc123'' @ ''-'' @ ''us11'') None
       = Inr \<lparr>client = (),
              baseURL = \<lparr>Scheme = ''https'', Host = ''us11.api.mailchimp.com'', Path = ''/3.0''\<rparr>,
              dc = ''us11'', apiKey = ''abc123-us11''\<rparr>"
  using NewClient_one_separator[of "''a-b-c''" url_Parse_plain "()" None]
        NewClient_one_separator[of "''abc123''" url_Parse_plain "()" None]
        NewClient_one_separator[of _ url_Parse_plain "()" None "''abc123''" "''us11''"]
  by (simp add: url_Parse_plain_us11)

text \<open>
  Claim C1 as the spec words it fails: the credential \<open>-us11\<close> has an empty first
  segment, and NewClient returns a client for it.
\<close>

theorem NewClient_empty_segment_counterexample:
  "\<not> two_nonempty_segments ''-us11''
   \<and> NewClient url_Parse_plain () ''-us11'' None =
       Inr \<lparr>client = (),
            baseURL = \<lparr>Scheme = ''https'', Host = ''us11.api.mailchimp.com'', Path = ''/3.0''\<rparr>,
            dc = ''us11'', apiKey = ''-us11''\<rparr>"
  by code_simp

text \<open>
  Claim C7. For the credential \<open>abc123-us11\<close> the text handed to the URL parser
  is \<open>https://us11.api.mailchimp.com/3.0\<close>, whatever the parser; net/url accepts
  it, so NewClient succeeds, and the base URL of the client has the host
  \<open>us11.api.mailchimp.com\<close> and prints as that text.
\<close>

theorem NewClient_abc123_us11:
  "NewClient url_Parse_plain D ''abc123-us11'' hc =
     Inr \<lparr>client = (case hc of None \<Rightarrow> D | Some h \<Rightarrow> h),
          baseURL = \<lparr>Scheme = ''https'', Host = ''us11.api.mailchimp.com'', Path = ''/3.0''\<rparr>,
          dc = ''us11'', apiKey = ''abc123-us11''\<rparr>
   \<and> url_String_plain \<lparr>Scheme = ''https'', Host = ''us11.api.mailchimp.com'', Path = ''/3.0''\<rparr>
       = ''https://us11.api.mailchimp.com/3.0''
   \<and> NewClient P D ''abc123-us11'' hc =
       (case P ''https://us11.api.mailchimp.com/3.0'' of
          Inl err \<Rightarrow> Inl (UrlParseError err)
        | Inr u \<Rightarrow> Inr \<lparr>client = (case hc of None \<Rightarrow> D | Some h \<Rightarrow> h), baseURL = u,
                        dc = ''us11'', apiKey = ''abc123-us11''\<rparr>)"
proof -
  have sp: "Split ''abc123-us11'' (CHR ''-'') = [''abc123'', ''us11'']" by simp
  have g: "\<And>P. NewClient P D ''abc123-us11'' hc =
       (case P ''https://us11.api.mailchimp.com/3.0'' of
          Inl err \<Rightarrow> Inl (UrlParseError err)
        | Inr u \<Rightarrow> Inr \<lparr>client = (case hc of None \<Rightarrow> D | Some h \<Rightarrow> h), baseURL = u,
                        dc = ''us11'', apiKey = ''abc123-us11''\<rparr>)"
    by (simp add: NewClient_def sp Let_def split: sum.splits)
  have s: "url_String_plain \<lparr>Scheme = ''https'', Host = ''us11.api.mailchimp.com'', Path = ''/3.0''\<rparr>
       = ''https://us11.api.mailchimp.com/3.0''"
    by (simp add: url_String_plain_def)
  show ?thesis using g[of url_Parse_plain] g[of P] s by (simp add: url_Parse_plain_us11)
qed

text \<open>
  Claim C9. After \<open>SetBaseURL(u)\<close> the accessor returns \<open>u\<close>, and the API key,
  the region token and the transport handle of the client are what they were.
\<close>

theorem SetBaseURL_frame:
  "GetBaseURL (SetBaseURL c u) = u \<and> apiKey (SetBaseURL c u) = apiKey c
   \<and> dc (SetBaseURL c u) = dc c \<and> client (SetBaseURL c u) = client c"
  by (simp add: GetBaseURL_def SetBaseURL_def)

subsection \<open>The classifier\<close>

lemma checkResponse_2xx:
  "200 \<le> StatusCode r \<Longrightarrow> StatusCode r \<le> 299 \<Longrightarrow> checkResponse unm r = None"
  by (simp add: checkResponse_def)

lemma checkResponse_failure:
  "\<not> (200 \<le> StatusCode r \<and> StatusCode r \<le> 299) \<Longrightarrow>
     checkResponse unm r =
       Some (case Body r of (Some data, None) \<Rightarrow> unm data new_ErrorResponse | _ \<Rightarrow> new_ErrorResponse)"
  by (auto simp: checkResponse_def Let_def split: prod.splits option.splits)

text \<open>
  Outside the success band the envelope is the zero value whenever the codec leaves
  the zero value as it is on the bytes read, and also when there are no bytes to
  hand to the codec (a read error, a nil slice).
\<close>

lemma checkResponse_untouched:
  assumes f: "\<not> (200 \<le> StatusCode r \<and> StatusCode r \<le> 299)"
    and u: "\<forall>data. Body r = (Some data, None) \<longrightarrow> unm data new_ErrorResponse = new_ErrorResponse"
  shows "checkResponse unm r = Some new_ErrorResponse"
proof -
  have "(case Body r of (Some data, None) \<Rightarrow> unm data new_ErrorResponse | _ \<Rightarrow> new_ErrorResponse)
          = new_ErrorResponse"
    using u by (auto split: prod.splits option.splits)
  then show ?thesis using checkResponse_failure[OF f, of unm] by simp
qed

text \<open>
  Claim C2, as the code has it. For a status code outside [200,299] checkResponse
  returns an envelope, whatever the body and whatever the codec does: it has no
  failing path, and the envelope is what the codec left of the zero value. When the
  body could not be read, is nil, or is not syntactically valid JSON (the empty body
  is not), the envelope is the zero value: with the decoder of encoding/json, and
  with any codec that leaves the struct untouched on such bytes.
\<close>

theorem checkResponse_never_fails:
  "\<not> (200 \<le> StatusCode r \<and> StatusCode r \<le> 299) \<Longrightarrow>
     (\<exists>e. checkResponse unm r = Some e)
     \<and> (\<forall>data. Body r = (Some data, None) \<longrightarrow>
          checkResponse unm r = Some (unm data \<lparr>Type = [], Title = [], Status = 0, Detail = []\<rparr>))
     \<and> ((\<forall>data. Body r = (Some data, None) \<longrightarrow> \<not> checkValid data) \<longrightarrow>
          checkResponse Unmarshal r = Some \<lparr>Type = [], Title = [], Status = 0, Detail = []\<rparr>)
     \<and> ((\<forall>data. Body r = (Some data, None) \<longrightarrow> unm data new_ErrorResponse = new_ErrorResponse) \<longrightarrow>
          checkResponse unm r = Some \<lparr>Type = [], Title = [], Status = 0, Detail = []\<rparr>)"
proof -
  assume f: "\<not> (200 \<le> StatusCode r \<and> StatusCode r \<le> 299)"
  have a: "\<exists>e. checkResponse unm r = Some e"
    using checkResponse_failure[OF f] by blast
  have d: "\<forall>data. Body r = (Some data, None) \<longrightarrow>
      checkResponse unm r = Some (unm data new_ErrorResponse)"
    using checkResponse_failure[OF f, of unm] by simp
  have b: "checkResponse Unmarshal r = Some new_ErrorResponse"
    if "\<forall>data. Body r = (Some data, None) \<longrightarrow> \<not> checkValid data"
    using that by (intro checkResponse_untouched[OF f]) (simp add: Unmarshal_invalid)
  have c: "checkResponse unm r = Some new_ErrorResponse"
    if "\<forall>data. Body r = (Some data, None) \<longrightarrow> unm data new_ErrorResponse = new_ErrorResponse"
    using that by (rule checkResponse_untouched[OF f])
  from a b c d show ?thesis unfolding new_ErrorResponse_def by blast
qed

text \<open>
  The theorem at status 500 with an empty body, at status 502 with a body that is
  no JSON, and at status 404 with a body that could not be read.
\<close>

theorem checkResponse_never_fails_witness:
  "(\<exists>e. checkResponse Unmarshal \<lparr>StatusCode = 500, Body = (Some [], None)\<rparr> = Some e)
   \<and> checkResponse Unmarshal \<lparr>StatusCode = 500, Body = (Some [], None)\<rparr>
       = Some \<lparr>Type = [], Title = [], Status = 0, Detail = []\<rparr>
   \<and> checkResponse Unmarshal \<lparr>StatusCode = 502, Body = (Some body_html, None)\<rparr>
       = Some \<lparr>Type = [], Title = [], Status = 0, Detail = []\<rparr>
   \<and> checkResponse Unmarshal \<lparr>StatusCode = 404, Body = (None, Some ''unexpected EOF'')\<rparr>
       = Some \<lparr>Type = [], Title = [], Status = 0, Detail = []\<rparr>"
  using checkResponse_never_fails[of "\<lparr>StatusCode = 500, Body = (Some [], None)\<rparr>" Unmarshal]
        checkResponse_never_fails[of "\<lparr>StatusCode = 502, Body = (Some body_html, None)\<rparr>" Unmarshal]
        checkResponse_never_fails[of "\<lparr>StatusCode = 404, Body = (None, Some ''unexpected EOF'')\<rparr>" Unmarshal]
  by (simp add: checkValid_empty checkValid_html Unmarshal_invalid)

text \<open>
  Claim C2 as the spec words it fails: a body that is well-formed JSON but has a
  string where the envelope has its integer does not fit the envelope shape, and the
  envelope returned for it is not the zero value: it holds the title.
\<close>

theorem checkResponse_partial_envelope_counterexample:
  "checkValid body_status_string
   \<and> checkResponse Unmarshal \<lparr>StatusCode = 418, Body = (Some body_status_string, None)\<rparr>
       = Some \<lparr>Type = [], Title = ''Teapot'', Status = 0, Detail = []\<rparr>
   \<and> \<lparr>Type = [], Title = ''Teapot'', Status = 0, Detail = []\<rparr>
       \<noteq> \<lparr>Type = [], Title = [], Status = 0, Detail = []\<rparr>"
  by (simp add: checkResponse_def Unmarshal_status_string)

text \<open>
  Claim C3. For a status code in [200,299] checkResponse returns no error, whatever
  the body (it is not read) and whatever the codec.
\<close>

theorem checkResponse_success_band:
  "200 \<le> StatusCode r \<and> StatusCode r \<le> 299 \<Longrightarrow> checkResponse unm r = None"
  by (simp add: checkResponse_def)

text \<open>The theorem at both ends of the band and inside it, with bodies that are no JSON.\<close>

theorem checkResponse_success_band_witness:
  "checkResponse Unmarshal \<lparr>StatusCode = 200, Body = (Some [], None)\<rparr> = None
   \<and> checkResponse Unmarshal \<lparr>StatusCode = 299, Body = (Some body_html, None)\<rparr> = None
   \<and> checkResponse Unmarshal \<lparr>StatusCode = 204, Body = (None, Some ''unexpected EOF'')\<rparr> = None"
  using checkResponse_success_band[of "\<lparr>StatusCode = 200, Body = (Some [], None)\<rparr>" Unmarshal]
        checkResponse_success_band[of "\<lparr>StatusCode = 299, Body = (Some body_html, None)\<rparr>" Unmarshal]
        checkResponse_success_band[of "\<lparr>StatusCode = 204, Body = (None, Some ''unexpected EOF'')\<rparr>" Unmarshal]
  by simp

text \<open>
  Claim C4. The message of an envelope is \<open>Error\<close>, the status as \<open>%d\<close> prints
  it, the title, and the detail in parentheses; what \<open>%d\<close> prints is the decimal
  numeral of the status (reading it back gives the status, for every 64-bit integer).
  For status 404 and the body of the spec's example, checkResponse returns the
  envelope with the four fields of the body, and its message is
  \<open>Error 404 Not Found (x)\<close>.
\<close>

theorem Error_format:
  "Error \<lparr>Type = k, Title = t, Status = s, Detail = d\<rparr>
     = ''Error '' @ fmt_d s @ '' '' @ t @ '' ('' @ d @ '')''
   \<and> (- (2 ^ 63) \<le> s \<and> s < 2 ^ 63 \<longrightarrow> ParseInt (fmt_d s) = Some s)
   \<and> checkResponse Unmarshal \<lparr>StatusCode = 404, Body = (Some body_not_found, None)\<rparr>
       = Some \<lparr>Type = ''t'', Title = ''Not Found'', Status = 404, Detail = ''x''\<rparr>
   \<and> Error \<lparr>Type = ''t'', Title = ''Not Found'', Status = 404, Detail = ''x''\<rparr>
       = ''Error 404 Not Found (x)''"
  using ParseInt_fmt_d[of s]
  by (simp add: Error_def checkResponse_def Unmarshal_not_found fmt_d_404)

text \<open>The theorem at a negative status with an empty title.\<close>

theorem Error_format_witness:
  "Error \<lparr>Type = ''about:blank'', Title = [], Status = - 7, Detail = ''gone''\<rparr> = ''Error -7  (gone)''
   \<and> - (2 ^ 63) \<le> (- 7 :: int) \<and> (- 7 :: int) < 2 ^ 63
   \<and> ParseInt (fmt_d (- 7)) = Some (- 7)"
proof -
  have "fmt_d (- 7) = ''-7''" by code_simp
  then show ?thesis
    using Error_format[of "''about:blank''" "[]" "- 7" "''gone''"] by simp
qed

text \<open>
  The result of checkResponse is a function of the status code and of what was read
  from the body, whatever else the response carries.
\<close>

lemma checkResponse_two_fields:
  "StatusCode r = StatusCode r' \<Longrightarrow> Body r = Body r' \<Longrightarrow>
     checkResponse unm r = checkResponse unm r'"
proof (cases "200 \<le> StatusCode r \<and> StatusCode r \<le> 299")
  case True
  assume "StatusCode r = StatusCode r'"
  with True show ?thesis by (simp add: checkResponse_2xx)
next
  case False
  assume eq: "StatusCode r = StatusCode r'" "Body r = Body r'"
  with False have "\<not> (200 \<le> StatusCode r' \<and> StatusCode r' \<le> 299)" by simp
  from checkResponse_failure[OF False, of unm] checkResponse_failure[OF this, of unm] eq(2)
  show ?thesis by simp
qed

subsection \<open>The classifier and the body stream\<close>

lemma checkResponse_io_2xx:
  "200 \<le> Code r \<and> Code r \<le> 299 \<Longrightarrow> checkResponse_io unm r \<sigma> = (None, \<sigma>)"
  by (simp add: checkResponse_io_def)

lemma checkResponse_io_failure:
  "\<not> (200 \<le> Code r \<and> Code r \<le> 299) \<Longrightarrow>
     checkResponse_io unm r \<sigma> =
       (Some (case snd (\<sigma> (BodyAt r)) of
                None \<Rightarrow> unm (fst (\<sigma> (BodyAt r))) new_ErrorResponse
              | Some err \<Rightarrow> new_ErrorResponse),
        \<sigma>(BodyAt r := ([], snd (\<sigma> (BodyAt r)))))"
  by (simp add: checkResponse_io_def ReadAll_def Let_def split: option.splits)

lemma checkResponse_io_result:
  "fst (checkResponse_io unm r \<sigma>)
     = checkResponse unm \<lparr>StatusCode = Code r, Body = fst (ReadAll (\<sigma> (BodyAt r)))\<rparr>"
proof (cases "200 \<le> Code r \<and> Code r \<le> 299")
  case True
  then show ?thesis by (simp add: checkResponse_io_2xx checkResponse_def)
next
  case False
  then show ?thesis
    by (simp add: checkResponse_io_failure checkResponse_def ReadAll_def Let_def split: option.splits)
qed

lemma checkResponse_io_same_input:
  assumes "Code r = Code r'" and "\<sigma> (BodyAt r) = \<sigma>' (BodyAt r')"
  shows "fst (checkResponse_io unm r \<sigma>) = fst (checkResponse_io unm r' \<sigma>')"
  using assms by (simp add: checkResponse_io_result)

lemma checkResponse_io_frame:
  "a \<noteq> BodyAt r \<Longrightarrow> snd (checkResponse_io unm r \<sigma>) a = \<sigma> a"
  by (cases "200 \<le> Code r \<and> Code r \<le> 299")
     (simp_all add: checkResponse_io_2xx checkResponse_io_failure)

lemma checkResponse_io_drains:
  "\<not> (200 \<le> Code r \<and> Code r \<le> 299) \<Longrightarrow>
     snd (checkResponse_io unm r \<sigma>) (BodyAt r) = ([], snd (\<sigma> (BodyAt r)))"
  by (simp add: checkResponse_io_failure)

lemma checkResponse_io_twice:
  assumes f: "\<not> (200 \<le> Code r \<and> Code r \<le> 299)"
  shows "fst (checkResponse_io Unmarshal r (snd (checkResponse_io Unmarshal r \<sigma>))) = Some new_ErrorResponse"
proof -
  let ?\<sigma>' = "snd (checkResponse_io Unmarshal r \<sigma>)"
  have d: "?\<sigma>' (BodyAt r) = ([], snd (\<sigma> (BodyAt r)))" using f by (rule checkResponse_io_drains)
  have "Unmarshal [] new_ErrorResponse = new_ErrorResponse"
    by (rule Unmarshal_invalid[OF checkValid_empty])
  then show ?thesis using f d
    by (simp add: checkResponse_io_failure[OF f, of Unmarshal ?\<sigma>'] split: option.splits)
qed

text \<open>
  Claim C8, as the code has it. checkResponse keeps no state of its own, and the only
  state it touches is the body stream of the response it is given:
  \<^item> two responses with the same status code whose body streams hold the same unread
    bytes and end the same way get equal results, in whatever stores they live;
  \<^item> a call leaves every other stream of the store as it was; a call on a status in
    [200,299] leaves the whole store as it was;
  \<^item> a call on any other status reads the body stream to its end, so a second call
    on the same response finds no bytes and returns the zero envelope;
  \<^item> a call on a second response with its own body stream, made after the first,
    returns what the first returned when the two agreed on status and unread bytes;
  \<^item> the result is \<open>checkResponse\<close> of the status code and of what
    \<open>ReadAll\<close> returned.
\<close>

theorem checkResponse_io_state:
  "(Code r = Code r' \<and> \<sigma> (BodyAt r) = \<sigma>' (BodyAt r') \<longrightarrow>
      fst (checkResponse_io unm r \<sigma>) = fst (checkResponse_io unm r' \<sigma>'))
   \<and> (\<forall>a. a \<noteq> BodyAt r \<longrightarrow> snd (checkResponse_io unm r \<sigma>) a = \<sigma> a)
   \<and> (200 \<le> Code r \<and> Code r \<le> 299 \<longrightarrow> snd (checkResponse_io unm r \<sigma>) = \<sigma>)
   \<and> (\<not> (200 \<le> Code r \<and> Code r \<le> 299) \<longrightarrow>
        snd (checkResponse_io unm r \<sigma>) (BodyAt r) = ([], snd (\<sigma> (BodyAt r)))
        \<and> fst (checkResponse_io Unmarshal r (snd (checkResponse_io Unmarshal r \<sigma>)))
            = Some \<lparr>Type = [], Title = [], Status = 0, Detail = []\<rparr>)
   \<and> (Code r = Code r' \<and> BodyAt r \<noteq> BodyAt r' \<and> \<sigma> (BodyAt r) = \<sigma> (BodyAt r') \<longrightarrow>
        fst (checkResponse_io unm r' (snd (checkResponse_io unm r \<sigma>))) = fst (checkResponse_io unm r \<sigma>))
   \<and> fst (checkResponse_io unm r \<sigma>)
       = checkResponse unm \<lparr>StatusCode = Code r, Body = fst (ReadAll (\<sigma> (BodyAt r)))\<rparr>"
proof -
  have seq: "fst (checkResponse_io unm r' (snd (checkResponse_io unm r \<sigma>))) = fst (checkResponse_io unm r \<sigma>)"
    if h: "Code r = Code r' \<and> BodyAt r \<noteq> BodyAt r' \<and> \<sigma> (BodyAt r) = \<sigma> (BodyAt r')"
  proof -
    have "snd (checkResponse_io unm r \<sigma>) (BodyAt r') = \<sigma> (BodyAt r')"
      using h checkResponse_io_frame[of "BodyAt r'" r unm \<sigma>] by auto
    then have "snd (checkResponse_io unm r \<sigma>) (BodyAt r') = \<sigma> (BodyAt r)" using h by simp
    then show ?thesis
      using checkResponse_io_same_input[of r' r "snd (checkResponse_io unm r \<sigma>)" \<sigma> unm] h by simp
  qed
  show ?thesis
    using checkResponse_io_same_input[of r r' \<sigma> \<sigma>' unm] checkResponse_io_frame[of _ r unm \<sigma>]
      checkResponse_io_2xx[of r unm \<sigma>] checkResponse_io_drains[of r unm \<sigma>]
      checkResponse_io_twice[of r \<sigma>] seq checkResponse_io_result[of unm r \<sigma>]
    unfolding new_ErrorResponse_def by simp
qed

text \<open>
  The theorem at two responses with status 404 and bodies at two addresses of the
  store of the example, classified one after the other, and at a response with
  status 204.
\<close>

theorem checkResponse_io_state_witness:
  "Code \<lparr>Code = 404, BodyAt = 0::nat\<rparr> = Code \<lparr>Code = 404, BodyAt = 1::nat\<rparr>
   \<and> BodyAt \<lparr>Code = 404, BodyAt = 0::nat\<rparr> \<noteq> BodyAt \<lparr>Code = 404, BodyAt = 1::nat\<rparr>
   \<and> fst (checkResponse_io Unmarshal \<lparr>Code = 404, BodyAt = 1\<rparr>
            (snd (checkResponse_io Unmarshal \<lparr>Code = 404, BodyAt = 0\<rparr> not_found_store)))
       = fst (checkResponse_io Unmarshal \<lparr>Code = 404, BodyAt = 0\<rparr> not_found_store)
   \<and> snd (checkResponse_io Unmarshal \<lparr>Code = 404, BodyAt = 0\<rparr> not_found_store) 0 = ([], None)
   \<and> snd (checkResponse_io Unmarshal \<lparr>Code = 404, BodyAt = 0\<rparr> not_found_store) 1 = (body_not_found, None)
   \<and> snd (checkResponse_io Unmarshal \<lparr>Code = 204, BodyAt = 0\<rparr> not_found_store) = not_found_store"
  using checkResponse_io_state[of "\<lparr>Code = 404, BodyAt = 0::nat\<rparr>" "\<lparr>Code = 404, BodyAt = 1::nat\<rparr>"
          not_found_store not_found_store Unmarshal]
        checkResponse_io_state[of "\<lparr>Code = 204, BodyAt = 0::nat\<rparr>" "\<lparr>Code = 204, BodyAt = 0::nat\<rparr>"
          not_found_store not_found_store Unmarshal]
  by (simp add: not_found_store_def)

text \<open>
  Claim C8 as the spec words it fails when the two calls are given the same response:
  the first call on a 404 response with the body of the example returns the envelope
  of the body, the second call on that response returns the zero envelope.
\<close>

theorem checkResponse_io_twice_counterexample:
  "fst (checkResponse_io Unmarshal \<lparr>Code = 404, BodyAt = 0\<rparr> not_found_store)
     = Some \<lparr>Type = ''t'', Title = ''Not Found'', Status = 404, Detail = ''x''\<rparr>
   \<and> fst (checkResponse_io Unmarshal \<lparr>Code = 404, BodyAt = 0\<rparr>
            (snd (checkResponse_io Unmarshal \<lparr>Code = 404, BodyAt = 0\<rparr> not_found_store)))
     = Some \<lparr>Type = [], Title = [], Status = 0, Detail = []\<rparr>
   \<and> \<lparr>Type = ''t'', Title = ''Not Found'', Status = 404, Detail = ''x''\<rparr>
       \<noteq> \<lparr>Type = [], Title = [], Status = 0, Detail = []\<rparr>"
proof -
  have f: "\<not> (200 \<le> Code \<lparr>Code = 404, BodyAt = 0::nat\<rparr> \<and> Code \<lparr>Code = 404, BodyAt = 0::nat\<rparr> \<le> 299)"
    by simp
  have 1: "fst (checkResponse_io Unmarshal \<lparr>Code = 404, BodyAt = 0\<rparr> not_found_store)
     = Some \<lparr>Type = ''t'', Title = ''Not Found'', Status = 404, Detail = ''x''\<rparr>"
    by (simp add: checkResponse_io_failure[OF f] not_found_store_def Unmarshal_not_found)
  from checkResponse_io_twice[OF f, of not_found_store] 1 show ?thesis
    by (simp add: new_ErrorResponse_def)
qed

text \<open>
  Claim C10. Outside the success band the envelope does not depend on the status
  code of the response: any two such codes with the same body give the same envelope,
  so the code is never copied into it. When the body could not be read, is nil, or
  is not syntactically valid JSON, the status of the envelope is 0 and its message
  is \<open>Error 0  ()\<close>.
\<close>

theorem checkResponse_ignores_status:
  "\<not> (200 \<le> c \<and> c \<le> 299) \<Longrightarrow> \<not> (200 \<le> c' \<and> c' \<le> 299) \<Longrightarrow>
     checkResponse unm \<lparr>StatusCode = c, Body = b\<rparr> = checkResponse unm \<lparr>StatusCode = c', Body = b\<rparr>
     \<and> ((\<forall>data. b = (Some data, None) \<longrightarrow> \<not> checkValid data) \<longrightarrow>
          (\<exists>e. checkResponse Unmarshal \<lparr>StatusCode = c, Body = b\<rparr> = Some e \<and> Status e = 0
                \<and> Error e = ''Error 0  ()''))"
proof -
  assume f: "\<not> (200 \<le> c \<and> c \<le> 299)" and f': "\<not> (200 \<le> c' \<and> c' \<le> 299)"
  have a: "checkResponse unm \<lparr>StatusCode = c, Body = b\<rparr> = checkResponse unm \<lparr>StatusCode = c', Body = b\<rparr>"
    using checkResponse_failure[of "\<lparr>StatusCode = c, Body = b\<rparr>" unm]
          checkResponse_failure[of "\<lparr>StatusCode = c', Body = b\<rparr>" unm] f f'
    by simp
  have z: "checkResponse Unmarshal \<lparr>StatusCode = c, Body = b\<rparr> = Some new_ErrorResponse"
    if "\<forall>data. b = (Some data, None) \<longrightarrow> \<not> checkValid data"
    using that f by (intro checkResponse_untouched) (simp_all add: Unmarshal_invalid)
  have "Status new_ErrorResponse = 0" by (simp add: new_ErrorResponse_def)
  with a z Error_zero show ?thesis by auto
qed

text \<open>
  The theorem at status 500 with an empty body, against status 404; and status 500
  with the body of the example, whose envelope has the status 404 of the body.
\<close>

theorem checkResponse_ignores_status_witness:
  "checkResponse Unmarshal \<lparr>StatusCode = 500, Body = (Some [], None)\<rparr>
     = checkResponse Unmarshal \<lparr>StatusCode = 404, Body = (Some [], None)\<rparr>
   \<and> (\<exists>e. checkResponse Unmarshal \<lparr>StatusCode = 500, Body = (Some [], None)\<rparr> = Some e
          \<and> Status e = 0 \<and> Error e = ''Error 0  ()'')
   \<and> checkResponse Unmarshal \<lparr>StatusCode = 500, Body = (Some body_not_found, None)\<rparr>
       = Some \<lparr>Type = ''t'', Title = ''Not Found'', Status = 404, Detail = ''x''\<rparr>"
proof -
  have n: "\<not> (200 \<le> (500::int) \<and> (500::int) \<le> 299)" "\<not> (200 \<le> (404::int) \<and> (404::int) \<le> 299)"
    by simp_all
  have inv: "\<forall>data. (Some [], None) = (Some data, None :: string option) \<longrightarrow> \<not> checkValid data"
    by (simp add: checkValid_empty)
  have ex: "checkResponse Unmarshal \<lparr>StatusCode = 500, Body = (Some body_not_found, None)\<rparr>
       = Some \<lparr>Type = ''t'', Title = ''Not Found'', Status = 404, Detail = ''x''\<rparr>"
    by (simp add: checkResponse_def Unmarshal_not_found)
  from checkResponse_ignores_status[OF n, of Unmarshal "(Some [], None)"] inv ex
  show ?thesis by blast
qed

subsection \<open>Requests\<close>

text \<open>
  Claim C5. Subscribe is the dispatch primitive with the method POST, the path
  \<open>/lists/\<close>, the list identifier as it is given, \<open>/members/\<close>, and a payload
  with the two keys \<open>email_address\<close>, holding the address as it is given, and
  \<open>status\<close>, holding \<open>subscribed\<close>. Neither argument is checked or escaped.
\<close>

theorem Subscribe_dispatch:
  "Subscribe lib c email listID w =
     do lib c ''POST'' (''/lists/'' @ listID @ ''/members/'')
        (Some [''email_address'' \<mapsto> email, ''status'' \<mapsto> ''subscribed'']) w
   \<and> dom [''email_address'' \<mapsto> email, ''status'' \<mapsto> ''subscribed''] = {''email_address'', ''status''}
   \<and> [''email_address'' \<mapsto> email, ''status'' \<mapsto> ''subscribed''] ''email_address'' = Some email
   \<and> [''email_address'' \<mapsto> email, ''status'' \<mapsto> ''subscribed''] ''status'' = Some ''subscribed''"
  by (auto simp: Subscribe_def)

text \<open>
  Claim C6. When the encoder refuses a body that is not nil, the dispatch primitive
  returns the encoder's error and the world as it was: whatever request construction
  and the transport would have done, neither is reached.
\<close>

theorem do_encode_error:
  "json_Encode lib b = Inl err \<Longrightarrow> do lib c method path (Some b) w = (Inl (EncodeError err), w)"
  by (simp add: do_def)

text \<open>The theorem at a library whose encoder refuses the body; no request is counted.\<close>

theorem do_encode_error_witness:
  "json_Encode refusing_library () = Inl ''json: unsupported type: chan int''
   \<and> do refusing_library
        \<lparr>client = (),
         baseURL = \<lparr>Scheme = ''https'', Host = ''us11.api.mailchimp.com'', Path = ''/3.0''\<rparr>,
         dc = ''us11'', apiKey = ''abc123-us11''\<rparr>
        ''POST'' ''/lists/1/members/'' (Some ()) 0
      = (Inl (EncodeError ''json: unsupported type: chan int''), 0)"
  using do_encode_error[of refusing_library "()" "''json: unsupported type: chan int''"
      "\<lparr>client = (),
        baseURL = \<lparr>Scheme = ''https'', Host = ''us11.api.mailchimp.com'', Path = ''/3.0''\<rparr>,
        dc = ''us11'', apiKey = ''abc123-us11''\<rparr>" "''POST''" "''/lists/1/members/''" 0]
  by (simp add: refusing_library_def)

end
